theory Spec2Isabelle
  imports Main
begin

section \<open>Values, errors and objects\<close>

text \<open>
  The classes of \<^verbatim>\<open>animal_multilevel_inheritance_annotated.py\<close>. The implicit root
  \<^verbatim>\<open>object\<close> is left out: its members (the dunder names every Python object has)
  are outside this model, except that a class without an \<^verbatim>\<open>__init__\<close> of its own
  or of an ancestor accepts no constructor arguments.
\<close>

datatype cls = Animal | Dog | Reptile | Lizard | Snake | Bacterium

text \<open>
  The Python values the program handles: booleans, unbounded integers, strings,
  \<^verbatim>\<open>None\<close>, a builtin type object (the program stores the type \<^verbatim>\<open>bool\<close> itself in
  \<^verbatim>\<open>eats\<close>), and a bound method, named by its defining class and its name.
\<close>

datatype pyval =
    PBool bool
  | PInt int
  | PStr string
  | PNone
  | PType string
  | PMethod cls string

datatype error = TypeError | AttributeError

text \<open>An instance: its class and its instance dictionary (\<^verbatim>\<open>__dict__\<close>).\<close>

record obj =
  cls_of :: cls
  dict :: "string \<rightharpoonup> pyval"

text \<open>
  Python's \<^verbatim>\<open>==\<close> on these values. \<^verbatim>\<open>bool\<close> is a subclass of \<^verbatim>\<open>int\<close>, so
  \<^verbatim>\<open>1 == True\<close> and \<^verbatim>\<open>0 == False\<close> hold; values of unrelated types are unequal.
\<close>

fun py_eq :: "pyval \<Rightarrow> pyval \<Rightarrow> bool" where
  "py_eq (PBool a) (PBool b) = (a = b)"
| "py_eq (PBool a) (PInt i) = ((if a then 1 else 0) = i)"
| "py_eq (PInt i) (PBool b) = (i = (if b then 1 else 0))"
| "py_eq (PInt i) (PInt j) = (i = j)"
| "py_eq (PStr s) (PStr t) = (s = t)"
| "py_eq PNone PNone = True"
| "py_eq (PType s) (PType t) = (s = t)"
| "py_eq (PMethod c m) (PMethod d n) = (c = d \<and> m = n)"
| "py_eq _ _ = False"

text \<open>
  Reading and writing an entry of the instance dictionary. Inside a class body a name
  \<^verbatim>\<open>self.__x\<close> is mangled to \<^verbatim>\<open>_Class__x\<close>; no class of the program defines a member
  of such a name (nor one named \<^verbatim>\<open>eats\<close>), so these accesses reach the instance
  dictionary directly. Reading a missing entry raises \<^verbatim>\<open>AttributeError\<close>.
\<close>

definition inst_get :: "obj \<Rightarrow> string \<Rightarrow> error + pyval" where
  "inst_get self n = (case dict self n of None \<Rightarrow> Inl AttributeError | Some v \<Rightarrow> Inr v)"

definition inst_set :: "obj \<Rightarrow> string \<Rightarrow> pyval \<Rightarrow> obj" where
  "inst_set self n v = self\<lparr>dict := (dict self)(n \<mapsto> v)\<rparr>"

section \<open>The classes\<close>

subsection \<open>Animal\<close>

definition Animal_init :: "obj \<Rightarrow> pyval \<Rightarrow> pyval \<Rightarrow> obj" where
  "Animal_init self legs tail =
     (let self = inst_set self ''_Animal__legs'' legs;
          self = inst_set self ''_Animal__tail'' tail;
          self = inst_set self ''eats'' (PType ''bool'')
      in self)"

definition Animal_legs :: "obj \<Rightarrow> error + pyval" where
  "Animal_legs self = inst_get self ''_Animal__legs''"

definition Animal_legs_setter :: "obj \<Rightarrow> pyval \<Rightarrow> obj" where
  "Animal_legs_setter self legs = inst_set self ''_Animal__legs'' legs"

definition Animal_tail :: "obj \<Rightarrow> error + pyval" where
  "Animal_tail self =
     (case inst_get self ''_Animal__tail'' of
        Inl e \<Rightarrow> Inl e
      | Inr t \<Rightarrow> if py_eq t (PBool True) then Inr (PStr ''has'')
                 else Inr (PStr ''does not have''))"

definition Animal_tail_setter :: "obj \<Rightarrow> pyval \<Rightarrow> obj" where
  "Animal_tail_setter self tail = inst_set self ''_Animal__tail'' tail"

subsection \<open>Dog\<close>

definition Dog_init :: "obj \<Rightarrow> pyval \<Rightarrow> pyval \<Rightarrow> pyval \<Rightarrow> obj" where
  "Dog_init self name legs tail =
     (let self = inst_set self ''_Dog__name'' name;
          self = inst_set self ''_Dog__sound'' (PStr ''woof'')
      in Animal_init self legs tail)"

text \<open>\<^verbatim>\<open>bark\<close> prints the sound; the model returns the value printed.\<close>

definition Dog_bark :: "obj \<Rightarrow> error + pyval" where
  "Dog_bark self = inst_get self ''_Dog__sound''"

definition Dog_name :: "obj \<Rightarrow> error + pyval" where
  "Dog_name self = inst_get self ''_Dog__name''"

definition Dog_name_setter :: "obj \<Rightarrow> pyval \<Rightarrow> obj" where
  "Dog_name_setter self name = inst_set self ''_Dog__name'' name"

subsection \<open>Reptile (and Lizard, which adds nothing)\<close>

text \<open>
  \<^verbatim>\<open>super().__init__\<close> in \<^verbatim>\<open>Reptile.__init__\<close> is the \<^verbatim>\<open>__init__\<close> of the class after
  \<^verbatim>\<open>Reptile\<close> in the linearisation of the instance's class; for \<^verbatim>\<open>Reptile\<close>,
  \<^verbatim>\<open>Lizard\<close> and \<^verbatim>\<open>Snake\<close> alike that class is \<^verbatim>\<open>Animal\<close>.
\<close>

definition Reptile_init :: "obj \<Rightarrow> pyval \<Rightarrow> pyval \<Rightarrow> obj" where
  "Reptile_init self legs tail =
     (let self = inst_set self ''_Reptile__scales'' (PBool True)
      in Animal_init self legs tail)"

definition Reptile_scales :: "obj \<Rightarrow> error + pyval" where
  "Reptile_scales self =
     (case inst_get self ''_Reptile__scales'' of
        Inl e \<Rightarrow> Inl e
      | Inr s \<Rightarrow> if py_eq s (PBool True) then Inr (PStr ''has'')
                 else Inr (PStr ''does not have''))"

definition Reptile_scales_setter :: "obj \<Rightarrow> pyval \<Rightarrow> obj" where
  "Reptile_scales_setter self scales = inst_set self ''_Reptile__scales'' scales"

subsection \<open>Snake\<close>

text \<open>
  The parameter \<^verbatim>\<open>tail\<close> of \<^verbatim>\<open>Snake.__init__\<close> is never read: the constructor stores
  \<^verbatim>\<open>True\<close> in its own \<^verbatim>\<open>_Snake__tail\<close> and passes that stored value up.
\<close>

definition Snake_init :: "obj \<Rightarrow> pyval \<Rightarrow> pyval \<Rightarrow> error + obj" where
  "Snake_init self legs tail =
     (let self = inst_set self ''_Snake__venom'' (PBool False);
          self = inst_set self ''_Snake__tail'' (PBool True)
      in case inst_get self ''_Snake__tail'' of
           Inl e \<Rightarrow> Inl e
         | Inr t \<Rightarrow> Inr (Reptile_init self legs t))"

definition Snake_venom :: "obj \<Rightarrow> error + pyval" where
  "Snake_venom self =
     (case inst_get self ''_Snake__venom'' of
        Inl e \<Rightarrow> Inl e
      | Inr v \<Rightarrow> if py_eq v (PBool False) then Inr (PStr ''is not'')
                 else Inr (PStr ''is''))"

definition Snake_venom_setter :: "obj \<Rightarrow> pyval \<Rightarrow> obj" where
  "Snake_venom_setter self has_venom = inst_set self ''_Snake__venom'' has_venom"

definition Snake_tail :: "obj \<Rightarrow> error + pyval" where
  "Snake_tail self =
     (case inst_get self ''_Snake__tail'' of
        Inl e \<Rightarrow> Inl e
      | Inr t \<Rightarrow> if py_eq t (PBool True) then Inr (PStr ''is mostly'')
                 else Inr (PStr ''must be dead''))"

definition Snake_tail_setter :: "obj \<Rightarrow> pyval \<Rightarrow> obj" where
  "Snake_tail_setter self tail = inst_set self ''_Snake__tail'' tail"

section \<open>Class dictionaries, method resolution and attribute access\<close>

text \<open>A formal parameter: its name and its default value, if it has one.\<close>

type_synonym params = "(string \<times> pyval option) list"

text \<open>
  What a class body binds a name to: a plain class attribute, a property with its
  getter and setter, the constructor (its parameters after \<^verbatim>\<open>self\<close> and its body,
  applied to the bound arguments in parameter order), or another method.
\<close>

datatype member =
    ClassAttr pyval
  | Property "obj \<Rightarrow> error + pyval" "obj \<Rightarrow> pyval \<Rightarrow> obj"
  | Init params "obj \<Rightarrow> pyval list \<Rightarrow> error + obj"
  | Method

fun class_dict :: "cls \<Rightarrow> string \<rightharpoonup> member" where
  "class_dict Animal = map_of
     [(''multicellular'', ClassAttr (PBool True)),
      (''__init__'', Init [(''legs'', None), (''tail'', None)]
         (\<lambda>self vs. Inr (Animal_init self (vs ! 0) (vs ! 1)))),
      (''legs'', Property Animal_legs Animal_legs_setter),
      (''tail'', Property Animal_tail Animal_tail_setter)]"
| "class_dict Dog = map_of
     [(''__init__'', Init [(''name'', None), (''legs'', Some (PInt 4)), (''tail'', Some (PBool True))]
         (\<lambda>self vs. Inr (Dog_init self (vs ! 0) (vs ! 1) (vs ! 2)))),
      (''bark'', Method),
      (''name'', Property Dog_name Dog_name_setter)]"
| "class_dict Reptile = map_of
     [(''__init__'', Init [(''legs'', None), (''tail'', Some (PBool True))]
         (\<lambda>self vs. Inr (Reptile_init self (vs ! 0) (vs ! 1)))),
      (''scales'', Property Reptile_scales Reptile_scales_setter)]"
| "class_dict Lizard = map_of []"
| "class_dict Snake = map_of
     [(''__init__'', Init [(''legs'', Some (PInt 0)), (''tail'', Some (PBool True))]
         (\<lambda>self vs. Snake_init self (vs ! 0) (vs ! 1))),
      (''venom'', Property Snake_venom Snake_venom_setter),
      (''tail'', Property Snake_tail Snake_tail_setter)]"
| "class_dict Bacterium = map_of
     [(''multicellular'', ClassAttr (PBool False))]"

text \<open>The method resolution order of each class (single inheritance: the chain of bases).\<close>

fun mro :: "cls \<Rightarrow> cls list" where
  "mro Animal = [Animal]"
| "mro Dog = [Dog, Animal]"
| "mro Reptile = [Reptile, Animal]"
| "mro Lizard = [Lizard, Reptile, Animal]"
| "mro Snake = [Snake, Reptile, Animal]"
| "mro Bacterium = [Bacterium]"

text \<open>The first class of a linearisation that binds the name, with the member bound.\<close>

fun lookup_mro :: "cls list \<Rightarrow> string \<Rightarrow> (cls \<times> member) option" where
  "lookup_mro [] n = None"
| "lookup_mro (k # ks) n =
     (case class_dict k n of Some m \<Rightarrow> Some (k, m) | None \<Rightarrow> lookup_mro ks n)"

text \<open>
  \<^verbatim>\<open>obj.name\<close>: a property found on the class wins over the instance dictionary (it
  is a data descriptor) and runs its getter; otherwise the instance dictionary comes
  first, then the class attribute or bound method; otherwise \<^verbatim>\<open>AttributeError\<close>.
\<close>

definition py_getattr :: "obj \<Rightarrow> string \<Rightarrow> error + pyval" where
  "py_getattr self n =
     (case lookup_mro (mro (cls_of self)) n of
        Some (k, Property fget fset) \<Rightarrow> fget self
      | Some (k, ClassAttr v) \<Rightarrow> (case dict self n of Some w \<Rightarrow> Inr w | None \<Rightarrow> Inr v)
      | Some (k, Init ps body) \<Rightarrow> (case dict self n of Some w \<Rightarrow> Inr w | None \<Rightarrow> Inr (PMethod k n))
      | Some (k, Method) \<Rightarrow> (case dict self n of Some w \<Rightarrow> Inr w | None \<Rightarrow> Inr (PMethod k n))
      | None \<Rightarrow> inst_get self n)"

text \<open>
  \<^verbatim>\<open>obj.name = v\<close>: a property found on the class runs its setter (every property
  of the program has one); any other name is stored in the instance dictionary.
\<close>

definition py_setattr :: "obj \<Rightarrow> string \<Rightarrow> pyval \<Rightarrow> obj" where
  "py_setattr self n v =
     (case lookup_mro (mro (cls_of self)) n of
        Some (k, Property fget fset) \<Rightarrow> fset self v
      | _ \<Rightarrow> inst_set self n v)"

text \<open>
  \<^verbatim>\<open>super(c, obj).name\<close>: the lookup starts after \<^verbatim>\<open>c\<close> in the linearisation of the
  instance's class and never consults the instance dictionary; \<^verbatim>\<open>obj\<close> must be an
  instance of \<^verbatim>\<open>c\<close>.
\<close>

definition mro_after :: "cls \<Rightarrow> cls list \<Rightarrow> cls list" where
  "mro_after c ks = tl (dropWhile (\<lambda>k. k \<noteq> c) ks)"

definition py_super_getattr :: "cls \<Rightarrow> obj \<Rightarrow> string \<Rightarrow> error + pyval" where
  "py_super_getattr c self n =
     (if c \<notin> set (mro (cls_of self)) then Inl TypeError
      else case lookup_mro (mro_after c (mro (cls_of self))) n of
        Some (k, Property fget fset) \<Rightarrow> fget self
      | Some (k, ClassAttr v) \<Rightarrow> Inr v
      | Some (k, Init ps body) \<Rightarrow> Inr (PMethod k n)
      | Some (k, Method) \<Rightarrow> Inr (PMethod k n)
      | None \<Rightarrow> Inl AttributeError)"

section \<open>Calling a constructor\<close>

text \<open>
  Binding the positional arguments \<open>args\<close> and the keyword arguments \<open>kw\<close> of a call to
  the parameters: positional arguments fill the parameters from the left, a keyword
  fills the parameter of its name, a parameter left over takes its default. Too many
  positional arguments, a parameter given twice, an unknown keyword and a parameter
  without a value each raise \<^verbatim>\<open>TypeError\<close>.
\<close>

fun bind_args :: "params \<Rightarrow> pyval list \<Rightarrow> (string \<times> pyval) list \<Rightarrow> error + pyval list" where
  "bind_args [] [] kw = (if kw = [] then Inr [] else Inl TypeError)"
| "bind_args [] (a # as) kw = Inl TypeError"
| "bind_args ((n, d) # ps) (a # as) kw =
     (if map_of kw n \<noteq> None then Inl TypeError
      else case bind_args ps as kw of Inl e \<Rightarrow> Inl e | Inr vs \<Rightarrow> Inr (a # vs))"
| "bind_args ((n, d) # ps) [] kw =
     (case map_of kw n of
        Some v \<Rightarrow>
          (case bind_args ps [] (filter (\<lambda>p. fst p \<noteq> n) kw) of
             Inl e \<Rightarrow> Inl e | Inr vs \<Rightarrow> Inr (v # vs))
      | None \<Rightarrow>
          (case d of
             None \<Rightarrow> Inl TypeError
           | Some v \<Rightarrow> (case bind_args ps [] kw of Inl e \<Rightarrow> Inl e | Inr vs \<Rightarrow> Inr (v # vs))))"

definition blank :: "cls \<Rightarrow> obj" where
  "blank c = \<lparr>cls_of = c, dict = Map.empty\<rparr>"

text \<open>
  \<^verbatim>\<open>c(*args, **kw)\<close>: a new instance with an empty dictionary, initialised by the
  first \<^verbatim>\<open>__init__\<close> of the linearisation; a class with none takes no arguments.
\<close>

definition new :: "cls \<Rightarrow> pyval list \<Rightarrow> (string \<times> pyval) list \<Rightarrow> error + obj" where
  "new c args kw =
     (case lookup_mro (mro c) ''__init__'' of
        Some (k, Init ps body) \<Rightarrow>
          (case bind_args ps args kw of Inl e \<Rightarrow> Inl e | Inr vs \<Rightarrow> body (blank c) vs)
      | _ \<Rightarrow>
          (case bind_args [] args kw of Inl e \<Rightarrow> Inl e | Inr vs \<Rightarrow> Inr (blank c)))"

text \<open>A sequence of attribute assignments, applied from the left.\<close>

fun assign_all :: "obj \<Rightarrow> (string \<times> pyval) list \<Rightarrow> obj" where
  "assign_all self [] = self"
| "assign_all self ((n, v) # as) = assign_all (py_setattr self n v) as"

text \<open>The mangled names under which the classes keep their private fields.\<close>

definition private_names :: "string set" where
  "private_names = {''_Animal__legs'', ''_Animal__tail'', ''_Dog__name'',
                    ''_Reptile__scales'', ''_Snake__venom'', ''_Snake__tail''}"

section \<open>Basic facts about construction and attribute access\<close>

lemmas accessor_defs =
  inst_get_def inst_set_def
  Animal_init_def Animal_legs_def Animal_legs_setter_def Animal_tail_def Animal_tail_setter_def
  Dog_init_def Dog_bark_def Dog_name_def Dog_name_setter_def
  Reptile_init_def Reptile_scales_def Reptile_scales_setter_def
  Snake_init_def Snake_venom_def Snake_venom_setter_def Snake_tail_def Snake_tail_setter_def

lemmas setter_defs =
  Animal_legs_setter_def Animal_tail_setter_def Dog_name_setter_def
  Reptile_scales_setter_def Snake_venom_setter_def Snake_tail_setter_def

text \<open>What a successful constructor call returns, class by class.\<close>

lemma new_Animal:
  "new Animal args kw = Inr a \<Longrightarrow> \<exists>l t. a = Animal_init (blank Animal) l t"
  by (auto simp: new_def split: sum.splits)

lemma new_Dog:
  "new Dog args kw = Inr a \<Longrightarrow> \<exists>n l t. a = Dog_init (blank Dog) n l t"
  by (auto simp: new_def split: sum.splits)

lemma new_Reptile:
  "new Reptile args kw = Inr a \<Longrightarrow> \<exists>l t. a = Reptile_init (blank Reptile) l t"
  by (auto simp: new_def split: sum.splits)

lemma new_Lizard:
  "new Lizard args kw = Inr a \<Longrightarrow> \<exists>l t. a = Reptile_init (blank Lizard) l t"
  by (auto simp: new_def split: sum.splits)

lemma new_Snake:
  "new Snake args kw = Inr a \<Longrightarrow>
    \<exists>l. a = Reptile_init (inst_set (inst_set (blank Snake) ''_Snake__venom'' (PBool False))
                ''_Snake__tail'' (PBool True)) l (PBool True)"
  by (auto simp: new_def Snake_init_def inst_get_def inst_set_def Let_def split: sum.splits)

lemma new_Bacterium:
  "new Bacterium args kw = Inr a \<Longrightarrow> a = blank Bacterium"
  by (auto simp: new_def split: sum.splits)

text \<open>The properties of the program: wherever a lookup finds one, it is one of these six.\<close>

lemma lookup_Property:
  "lookup_mro (mro c) n = Some (k, Property g s) \<Longrightarrow>
     (n = ''legs'' \<and> g = Animal_legs \<and> s = Animal_legs_setter) \<or>
     (n = ''tail'' \<and> g = Animal_tail \<and> s = Animal_tail_setter) \<or>
     (n = ''name'' \<and> g = Dog_name \<and> s = Dog_name_setter) \<or>
     (n = ''scales'' \<and> g = Reptile_scales \<and> s = Reptile_scales_setter) \<or>
     (n = ''venom'' \<and> g = Snake_venom \<and> s = Snake_venom_setter) \<or>
     (n = ''tail'' \<and> g = Snake_tail \<and> s = Snake_tail_setter)"
  by (cases c) (simp_all split: if_splits)

text \<open>An assignment writes one entry: the name assigned, or a private field.\<close>

lemma py_setattr_cases:
  "\<exists>k. py_setattr s n v = inst_set s k v \<and> (k = n \<or> k \<in> private_names)"
proof (cases "lookup_mro (mro (cls_of s)) n")
  case None
  then have "py_setattr s n v = inst_set s n v" by (simp add: py_setattr_def)
  then show ?thesis by blast
next
  case (Some p)
  obtain c m where p: "p = (c, m)" by (cases p)
  show ?thesis
  proof (cases m)
    case (Property g f)
    with Some p have f: "py_setattr s n v = f s v" by (simp add: py_setattr_def)
    from lookup_Property Some p Property
    have "f \<in> {Animal_legs_setter, Animal_tail_setter, Dog_name_setter,
                Reptile_scales_setter, Snake_venom_setter, Snake_tail_setter}"
      by blast
    then show ?thesis unfolding f
      by (auto simp: setter_defs private_names_def)
  next
    case (ClassAttr w)
    with Some p have "py_setattr s n v = inst_set s n v" by (simp add: py_setattr_def)
    then show ?thesis by blast
  next
    case (Init ps body)
    with Some p have "py_setattr s n v = inst_set s n v" by (simp add: py_setattr_def)
    then show ?thesis by blast
  next
    case Method
    with Some p have "py_setattr s n v = inst_set s n v" by (simp add: py_setattr_def)
    then show ?thesis by blast
  qed
qed

lemma py_setattr_cls [simp]: "cls_of (py_setattr s n v) = cls_of s"
  using py_setattr_cases [of s n v] by (auto simp: inst_set_def)

lemma assign_all_cls [simp]: "cls_of (assign_all s ops) = cls_of s"
  by (induction s ops rule: assign_all.induct) simp_all

lemma py_setattr_dict_other:
  assumes "x \<noteq> n" "x \<notin> private_names"
  shows "dict (py_setattr s n v) x = dict s x"
  using py_setattr_cases [of s n v] assms by (auto simp: inst_set_def)

section \<open>Properties\<close>

text \<open>
  C3. A Dog constructed with only a name has leg count 4 and tail description "has"; a
  Dog constructed with legs 3 and tail False, positionally or by keyword, has leg
  count 3 and tail description "does not have".
\<close>

theorem Dog_defaults_and_overrides:
  "(\<exists>d. new Dog [name] [] = Inr d
        \<and> py_getattr d ''legs'' = Inr (PInt 4)
        \<and> py_getattr d ''tail'' = Inr (PStr ''has''))
   \<and> (\<exists>d. new Dog [name, PInt 3, PBool False] [] = Inr d
        \<and> py_getattr d ''legs'' = Inr (PInt 3)
        \<and> py_getattr d ''tail'' = Inr (PStr ''does not have''))
   \<and> (\<exists>d. new Dog [name] [(''legs'', PInt 3), (''tail'', PBool False)] = Inr d
        \<and> py_getattr d ''legs'' = Inr (PInt 3)
        \<and> py_getattr d ''tail'' = Inr (PStr ''does not have''))"
proof -
  have 1: "new Dog [name] [] = Inr (Dog_init (blank Dog) name (PInt 4) (PBool True))"
    by (simp add: new_def)
  have 2: "new Dog [name, PInt 3, PBool False] []
             = Inr (Dog_init (blank Dog) name (PInt 3) (PBool False))"
    by (simp add: new_def)
  have 3: "new Dog [name] [(''legs'', PInt 3), (''tail'', PBool False)]
             = Inr (Dog_init (blank Dog) name (PInt 3) (PBool False))"
    by (simp add: new_def)
  have g: "py_getattr (Dog_init (blank Dog) name l t) ''legs'' = Inr l" for l t
    by (simp add: py_getattr_def accessor_defs blank_def)
  have t: "py_getattr (Dog_init (blank Dog) name l (PBool b)) ''tail''
             = Inr (PStr (if b then ''has'' else ''does not have''))" for l b
    by (simp add: py_getattr_def accessor_defs blank_def)
  show ?thesis unfolding 1 2 3 using g t by simp
qed

text \<open>
  C1. Whatever arguments a Snake is constructed with, its own tail flag and the
  Animal-level tail flag are both True afterwards and the tail accessor returns
  "is mostly"; after \<^verbatim>\<open>snake.tail = False\<close> the accessor returns "must be dead",
  while \<^verbatim>\<open>super(Snake, snake).tail\<close> still returns "has": the Snake-level setter
  (with any value) leaves the Animal-level flag True. A tail argument, positional or
  keyword, is accepted and ignored.
\<close>

theorem Snake_tail_shadowing:
  assumes "new Snake args kw = Inr s"
  shows "dict s ''_Snake__tail'' = Some (PBool True)
       \<and> dict s ''_Animal__tail'' = Some (PBool True)
       \<and> py_getattr s ''tail'' = Inr (PStr ''is mostly'')
       \<and> py_getattr (py_setattr s ''tail'' (PBool False)) ''tail'' = Inr (PStr ''must be dead'')
       \<and> py_super_getattr Snake (py_setattr s ''tail'' v) ''tail'' = Inr (PStr ''has'')
       \<and> dict (py_setattr s ''tail'' v) ''_Animal__tail'' = Some (PBool True)
       \<and> (\<exists>s'. new Snake [l, t] [] = Inr s')
       \<and> (\<exists>s'. new Snake [] [(''tail'', t)] = Inr s')"
proof -
  from new_Snake [OF assms] obtain l0 where
    s: "s = Reptile_init (inst_set (inst_set (blank Snake) ''_Snake__venom'' (PBool False))
                ''_Snake__tail'' (PBool True)) l0 (PBool True)"
    by blast
  have c: "cls_of s = Snake"
    by (simp add: s accessor_defs blank_def)
  have set: "py_setattr s ''tail'' w = Snake_tail_setter s w" for w
    by (simp add: py_setattr_def c)
  have get: "py_getattr x ''tail'' = Snake_tail x" if "cls_of x = Snake" for x
    using that by (simp add: py_getattr_def)
  have sup: "py_super_getattr Snake x ''tail'' = Animal_tail x" if "cls_of x = Snake" for x
    using that by (simp add: py_super_getattr_def mro_after_def)
  have c': "cls_of (Snake_tail_setter s w) = Snake" for w
    by (simp add: Snake_tail_setter_def inst_set_def c)
  have 1: "dict s ''_Snake__tail'' = Some (PBool True)"
    by (simp add: s accessor_defs blank_def)
  have 2: "dict s ''_Animal__tail'' = Some (PBool True)"
    by (simp add: s accessor_defs blank_def)
  have 3: "py_getattr s ''tail'' = Inr (PStr ''is mostly'')"
    by (simp add: get [OF c] Snake_tail_def inst_get_def 1)
  have 4: "py_getattr (py_setattr s ''tail'' (PBool False)) ''tail'' = Inr (PStr ''must be dead'')"
    unfolding set get [OF c']
    by (simp add: Snake_tail_def Snake_tail_setter_def inst_get_def inst_set_def)
  have 6: "dict (py_setattr s ''tail'' v) ''_Animal__tail'' = Some (PBool True)"
    by (simp add: set Snake_tail_setter_def inst_set_def 2)
  have 5: "py_super_getattr Snake (py_setattr s ''tail'' v) ''tail'' = Inr (PStr ''has'')"
    using 6 unfolding set sup [OF c']
    by (simp add: Animal_tail_def inst_get_def)
  have 7: "\<exists>s'. new Snake [l, t] [] = Inr s'"
    by (simp add: new_def Snake_init_def inst_get_def inst_set_def)
  have 8: "\<exists>s'. new Snake [] [(''tail'', t)] = Inr s'"
    by (simp add: new_def Snake_init_def inst_get_def inst_set_def)
  from 1 2 3 4 5 6 7 8 show ?thesis by blast
qed

theorem Snake_tail_shadowing_witness:
  "\<exists>s. new Snake [PInt 0, PBool False] [] = Inr s
     \<and> dict s ''_Snake__tail'' = Some (PBool True)
     \<and> dict s ''_Animal__tail'' = Some (PBool True)
     \<and> py_getattr s ''tail'' = Inr (PStr ''is mostly'')
     \<and> py_getattr (py_setattr s ''tail'' (PBool False)) ''tail'' = Inr (PStr ''must be dead'')
     \<and> py_super_getattr Snake (py_setattr s ''tail'' (PBool False)) ''tail'' = Inr (PStr ''has'')"
proof -
  have "\<exists>s. new Snake [PInt 0, PBool False] [] = Inr s"
    by (simp add: new_def Snake_init_def inst_get_def inst_set_def)
  then obtain s where s: "new Snake [PInt 0, PBool False] [] = Inr s" ..
  from Snake_tail_shadowing [OF s, of "PBool False"] s show ?thesis by blast
qed

text \<open>
  C4. On a Snake whose venom flag holds the boolean \<open>b\<close> the venom accessor returns
  "is not" for False and "is" for True; a freshly constructed Snake reports "is not",
  and after \<^verbatim>\<open>snake.venom = True\<close> it reports "is".
\<close>

theorem Snake_venom_description:
  assumes "cls_of s = Snake" and "dict s ''_Snake__venom'' = Some (PBool b)"
    and "new Snake args kw = Inr s0"
  shows "py_getattr s ''venom'' = Inr (PStr (if b then ''is'' else ''is not''))
       \<and> py_getattr s0 ''venom'' = Inr (PStr ''is not'')
       \<and> py_getattr (py_setattr s0 ''venom'' (PBool True)) ''venom'' = Inr (PStr ''is'')"
proof -
  have get: "py_getattr x ''venom'' = Snake_venom x" if "cls_of x = Snake" for x
    using that by (simp add: py_getattr_def)
  from new_Snake [OF assms(3)] obtain l0 where
    s0: "s0 = Reptile_init (inst_set (inst_set (blank Snake) ''_Snake__venom'' (PBool False))
                ''_Snake__tail'' (PBool True)) l0 (PBool True)"
    by blast
  have c0: "cls_of s0 = Snake"
    by (simp add: s0 accessor_defs blank_def)
  have set: "py_setattr s0 ''venom'' w = Snake_venom_setter s0 w" for w
    by (simp add: py_setattr_def c0)
  have c1: "cls_of (Snake_venom_setter s0 w) = Snake" for w
    by (simp add: Snake_venom_setter_def inst_set_def c0)
  have 1: "py_getattr s ''venom'' = Inr (PStr (if b then ''is'' else ''is not''))"
    using assms(2) by (simp add: get [OF assms(1)] Snake_venom_def inst_get_def)
  have 2: "py_getattr s0 ''venom'' = Inr (PStr ''is not'')"
    by (simp add: get [OF c0] Snake_venom_def) (simp add: s0 accessor_defs blank_def)
  have 3: "py_getattr (py_setattr s0 ''venom'' (PBool True)) ''venom'' = Inr (PStr ''is'')"
    unfolding set get [OF c1]
    by (simp add: Snake_venom_def Snake_venom_setter_def inst_get_def inst_set_def)
  from 1 2 3 show ?thesis by blast
qed

theorem Snake_venom_description_witness:
  "\<exists>s. new Snake [] [] = Inr s
     \<and> py_getattr s ''venom'' = Inr (PStr ''is not'')
     \<and> py_getattr (py_setattr s ''venom'' (PBool True)) ''venom'' = Inr (PStr ''is'')"
proof -
  have "\<exists>s. new Snake [] [] = Inr s \<and> cls_of s = Snake
          \<and> dict s ''_Snake__venom'' = Some (PBool False)"
    by (simp add: new_def accessor_defs blank_def)
  then obtain s where s: "new Snake [] [] = Inr s" "cls_of s = Snake"
    "dict s ''_Snake__venom'' = Some (PBool False)" by blast
  from Snake_venom_description [OF s(2) s(3) s(1)] s(1) show ?thesis by blast
qed

text \<open>A successful construction returns an instance of the class called.\<close>

lemma new_cls_of: "new c args kw = Inr a \<Longrightarrow> cls_of a = c"
  by (cases c)
     (auto dest!: new_Animal new_Dog new_Reptile new_Lizard new_Snake new_Bacterium
           simp: accessor_defs blank_def)

lemma new_eats:
  "c \<noteq> Bacterium \<Longrightarrow> new c args kw = Inr a \<Longrightarrow> dict a ''eats'' = Some (PType ''bool'')"
  by (cases c)
     (auto dest!: new_Animal new_Dog new_Reptile new_Lizard new_Snake
           simp: accessor_defs blank_def)

lemma new_scales:
  "c \<in> {Reptile, Lizard, Snake} \<Longrightarrow> new c args kw = Inr a \<Longrightarrow>
     dict a ''_Reptile__scales'' = Some (PBool True)"
  by (auto dest!: new_Reptile new_Lizard new_Snake simp: accessor_defs blank_def)

lemma getattr_eats: "py_getattr a ''eats'' = inst_get a ''eats''"
  by (cases "cls_of a") (simp_all add: py_getattr_def)

lemma setattr_eats: "py_setattr a ''eats'' v = inst_set a ''eats'' v"
  by (cases "cls_of a") (simp_all add: py_setattr_def)

text \<open>
  C2. On a freshly constructed instance of Animal or of one of its subclasses, reading
  \<^verbatim>\<open>eats\<close> yields the type object \<^verbatim>\<open>bool\<close>, a value that is neither True nor False
  (and compares unequal to both); after a boolean is assigned to \<^verbatim>\<open>eats\<close>, reading it
  returns that boolean.
\<close>

theorem eats_unset_until_assigned:
  assumes "c \<noteq> Bacterium" and "new c args kw = Inr a"
  shows "py_getattr a ''eats'' = Inr (PType ''bool'')
       \<and> PType ''bool'' \<noteq> PBool True \<and> PType ''bool'' \<noteq> PBool False
       \<and> \<not> py_eq (PType ''bool'') (PBool True) \<and> \<not> py_eq (PType ''bool'') (PBool False)
       \<and> py_getattr (py_setattr a ''eats'' (PBool b)) ''eats'' = Inr (PBool b)"
  using new_eats [OF assms]
  by (simp add: getattr_eats setattr_eats inst_get_def inst_set_def)

theorem eats_unset_until_assigned_witness:
  "\<exists>a. new Animal [PInt 6, PBool False] [] = Inr a
     \<and> py_getattr a ''eats'' = Inr (PType ''bool'')
     \<and> py_getattr (py_setattr a ''eats'' (PBool True)) ''eats'' = Inr (PBool True)"
proof -
  have "\<exists>a. new Animal [PInt 6, PBool False] [] = Inr a"
    by (simp add: new_def)
  then obtain a where a: "new Animal [PInt 6, PBool False] [] = Inr a" ..
  have ne: "Animal \<noteq> Bacterium" by simp
  from eats_unset_until_assigned [OF ne a, of True] a show ?thesis by blast
qed

text \<open>A call that binds its arguments passes no keyword that is not a parameter.\<close>

lemma bind_args_known_keywords:
  "bind_args ps args kw = Inr vs \<Longrightarrow> map_of kw n \<noteq> None \<Longrightarrow> n \<in> fst ` set ps"
proof (induction ps args kw arbitrary: vs rule: bind_args.induct)
  case (1 kw)
  then show ?case by (cases kw) (auto split: if_splits)
next
  case (2 a as kw)
  then show ?case by simp
next
  case (3 m d ps a as kw)
  then show ?case by (auto split: if_splits sum.splits)
next
  case (4 m d ps kw)
  show ?case
  proof (cases "n = m")
    case True
    then show ?thesis by simp
  next
    case False
    have filt: "map_of (filter (\<lambda>p. fst p \<noteq> m) kw) n = map_of kw n"
      using False by (induction kw) auto
    from "4.prems" "4.IH" filt show ?thesis
      by (auto split: option.splits sum.splits)
  qed
qed

lemma new_no_scales_keyword:
  assumes "new c args kw = Inr a"
  shows "map_of kw ''scales'' = None"
proof (rule ccontr)
  assume k: "map_of kw ''scales'' \<noteq> None"
  have h: "bind_args ps args kw = Inr vs \<Longrightarrow> ''scales'' \<in> fst ` set ps" for ps vs
    using bind_args_known_keywords k by blast
  from assms show False
    by (cases c) (auto simp: new_def split: sum.splits dest!: h)
qed

lemma getattr_scales:
  "cls_of a \<in> {Reptile, Lizard, Snake} \<Longrightarrow> py_getattr a ''scales'' = Reptile_scales a"
  by (auto simp: py_getattr_def)

text \<open>
  C10. Every freshly constructed Reptile, Lizard or Snake has its scales flag True and
  its scales description is "has"; the call that constructed it cannot have carried
  a \<^verbatim>\<open>scales\<close> keyword (no constructor has such a parameter).
\<close>

theorem scales_default_true:
  assumes "c \<in> {Reptile, Lizard, Snake}" and "new c args kw = Inr r"
  shows "dict r ''_Reptile__scales'' = Some (PBool True)
       \<and> py_getattr r ''scales'' = Inr (PStr ''has'')
       \<and> map_of kw ''scales'' = None"
proof -
  have c: "cls_of r \<in> {Reptile, Lizard, Snake}"
    using assms new_cls_of by simp
  have 1: "dict r ''_Reptile__scales'' = Some (PBool True)"
    using assms by (rule new_scales)
  have 2: "py_getattr r ''scales'' = Inr (PStr ''has'')"
    unfolding getattr_scales [OF c] by (simp add: Reptile_scales_def inst_get_def 1)
  from 1 2 new_no_scales_keyword [OF assms(2)] show ?thesis by blast
qed

theorem scales_default_true_witness:
  "\<exists>r. new Lizard [PInt 4] [] = Inr r
     \<and> dict r ''_Reptile__scales'' = Some (PBool True)
     \<and> py_getattr r ''scales'' = Inr (PStr ''has'')"
proof -
  have "\<exists>r. new Lizard [PInt 4] [] = Inr r"
    by (simp add: new_def)
  then obtain r where r: "new Lizard [PInt 4] [] = Inr r" ..
  have m: "Lizard \<in> {Reptile, Lizard, Snake}" by simp
  from scales_default_true [OF m r] r show ?thesis by blast
qed

text \<open>
  C7. A call of \<^verbatim>\<open>Reptile\<close> that supplies no leg count, neither positionally nor by
  keyword, raises \<^verbatim>\<open>TypeError\<close> and returns no instance; a call with a leg count
  and no tail succeeds, with the tail flag True.
\<close>

theorem Reptile_requires_legs:
  assumes "map_of kw ''legs'' = None"
  shows "new Reptile [] kw = Inl TypeError
       \<and> (\<exists>r. new Reptile [l] [] = Inr r
             \<and> dict r ''_Animal__tail'' = Some (PBool True)
             \<and> py_getattr r ''legs'' = Inr l
             \<and> py_getattr r ''tail'' = Inr (PStr ''has''))
       \<and> (\<exists>r. new Reptile [] [(''legs'', l)] = Inr r
             \<and> dict r ''_Animal__tail'' = Some (PBool True)
             \<and> py_getattr r ''legs'' = Inr l
             \<and> py_getattr r ''tail'' = Inr (PStr ''has''))"
proof -
  have 1: "new Reptile [] kw = Inl TypeError"
    using assms by (simp add: new_def)
  have 2: "new Reptile [l] [] = Inr (Reptile_init (blank Reptile) l (PBool True))"
    by (simp add: new_def)
  have 3: "new Reptile [] [(''legs'', l)] = Inr (Reptile_init (blank Reptile) l (PBool True))"
    by (simp add: new_def)
  have 4: "dict (Reptile_init (blank Reptile) l (PBool True)) ''_Animal__tail'' = Some (PBool True)"
    by (simp add: accessor_defs blank_def)
  have 5: "py_getattr (Reptile_init (blank Reptile) l (PBool True)) ''legs'' = Inr l"
    by (simp add: py_getattr_def accessor_defs blank_def)
  have 6: "py_getattr (Reptile_init (blank Reptile) l (PBool True)) ''tail'' = Inr (PStr ''has'')"
    by (simp add: py_getattr_def accessor_defs blank_def)
  from 1 2 3 4 5 6 show ?thesis by simp
qed

theorem Reptile_requires_legs_witness:
  "new Reptile [] [] = Inl TypeError
   \<and> new Reptile [] [(''tail'', PBool False)] = Inl TypeError
   \<and> (\<exists>r. new Reptile [PInt 4] [] = Inr r \<and> py_getattr r ''tail'' = Inr (PStr ''has''))"
proof -
  have a: "map_of ([] :: (string \<times> pyval) list) ''legs'' = None" by simp
  have b: "map_of [(''tail'', PBool False)] ''legs'' = None" by simp
  from Reptile_requires_legs [OF a, of "PInt 4"] Reptile_requires_legs [OF b, of "PInt 4"]
  show ?thesis by blast
qed

text \<open>
  C8. A Bacterium instance has no \<^verbatim>\<open>legs\<close>, \<^verbatim>\<open>tail\<close>, \<^verbatim>\<open>scales\<close> or \<^verbatim>\<open>eats\<close>: reading
  any of them raises \<^verbatim>\<open>AttributeError\<close>, as does reading any name other than
  \<^verbatim>\<open>multicellular\<close> (the members of \<^verbatim>\<open>object\<close> apart), which reads False. The class
  dictionary binds that one name, and the instance dictionary is empty.
\<close>

theorem Bacterium_has_no_animal_members:
  assumes "new Bacterium args kw = Inr b" and "n \<noteq> ''multicellular''"
  shows "py_getattr b ''legs'' = Inl AttributeError
       \<and> py_getattr b ''tail'' = Inl AttributeError
       \<and> py_getattr b ''scales'' = Inl AttributeError
       \<and> py_getattr b ''eats'' = Inl AttributeError
       \<and> py_getattr b n = Inl AttributeError
       \<and> py_getattr b ''multicellular'' = Inr (PBool False)
       \<and> dom (class_dict Bacterium) = {''multicellular''}
       \<and> dict b = Map.empty
       \<and> new Bacterium [] [] = Inr b"
proof -
  have b: "b = blank Bacterium"
    using assms(1) by (rule new_Bacterium)
  have other: "py_getattr b m = Inl AttributeError" if "m \<noteq> ''multicellular''" for m
    using that by (simp add: b py_getattr_def blank_def inst_get_def)
  have 1: "py_getattr b ''multicellular'' = Inr (PBool False)"
    by (simp add: b py_getattr_def blank_def)
  have 2: "dom (class_dict Bacterium) = {''multicellular''}"
    by (auto split: if_splits)
  have 3: "dict b = Map.empty"
    by (simp add: b blank_def)
  have 4: "new Bacterium [] [] = Inr b"
    by (simp add: b new_def)
  from other [of "''legs''"] other [of "''tail''"] other [of "''scales''"] other [of "''eats''"]
    other [OF assms(2)] 1 2 3 4
  show ?thesis by simp
qed

theorem Bacterium_has_no_animal_members_witness:
  "\<exists>b. new Bacterium [] [] = Inr b
     \<and> py_getattr b ''legs'' = Inl AttributeError
     \<and> py_getattr b ''tail'' = Inl AttributeError
     \<and> py_getattr b ''scales'' = Inl AttributeError
     \<and> py_getattr b ''eats'' = Inl AttributeError
     \<and> py_getattr b ''venom'' = Inl AttributeError
     \<and> py_getattr b ''multicellular'' = Inr (PBool False)"
proof -
  have "\<exists>b. new Bacterium [] [] = Inr b"
    by (simp add: new_def)
  then obtain b where b: "new Bacterium [] [] = Inr b" ..
  have n: "''venom'' \<noteq> ''multicellular''" by simp
  from Bacterium_has_no_animal_members [OF b n] b show ?thesis by blast
qed

lemma getattr_legs: "cls_of a \<noteq> Bacterium \<Longrightarrow> py_getattr a ''legs'' = Animal_legs a"
  by (cases "cls_of a") (simp_all add: py_getattr_def)

lemma setattr_legs: "cls_of a \<noteq> Bacterium \<Longrightarrow> py_setattr a ''legs'' v = Animal_legs_setter a v"
  by (cases "cls_of a") (simp_all add: py_setattr_def)

lemma getattr_tail:
  "cls_of a \<noteq> Bacterium \<Longrightarrow> cls_of a \<noteq> Snake \<Longrightarrow> py_getattr a ''tail'' = Animal_tail a"
  by (cases "cls_of a") (simp_all add: py_getattr_def)

lemma setattr_tail:
  "cls_of a \<noteq> Bacterium \<Longrightarrow> cls_of a \<noteq> Snake \<Longrightarrow>
     py_setattr a ''tail'' v = Animal_tail_setter a v"
  by (cases "cls_of a") (simp_all add: py_setattr_def)

text \<open>
  C9. On every instance of Animal or of a subclass, \<^verbatim>\<open>a.legs = v\<close> followed by
  \<^verbatim>\<open>a.legs\<close> returns \<open>v\<close>, for every value \<open>v\<close>. On every such instance that is not a
  Snake, \<^verbatim>\<open>a.tail = b\<close> with a boolean \<open>b\<close> followed by \<^verbatim>\<open>a.tail\<close> returns "has" for
  True and "does not have" for False, and what is stored is the boolean itself. The
  same holds of the property \<^verbatim>\<open>Animal.tail\<close> applied to any of these instances, a
  Snake included (on a Snake the name \<^verbatim>\<open>tail\<close> resolves to the override instead).
\<close>

theorem legs_and_tail_round_trip:
  assumes "cls_of a \<noteq> Bacterium"
  shows "py_getattr (py_setattr a ''legs'' v) ''legs'' = Inr v
       \<and> (cls_of a \<noteq> Snake \<longrightarrow>
            py_getattr (py_setattr a ''tail'' (PBool b)) ''tail''
              = Inr (PStr (if b then ''has'' else ''does not have''))
          \<and> dict (py_setattr a ''tail'' (PBool b)) ''_Animal__tail'' = Some (PBool b))
       \<and> Animal_tail (Animal_tail_setter a (PBool b))
            = Inr (PStr (if b then ''has'' else ''does not have''))"
proof -
  have c: "cls_of (py_setattr a n w) \<noteq> Bacterium" for n w
    using assms by simp
  have "py_getattr (py_setattr a ''legs'' v) ''legs'' = Animal_legs (py_setattr a ''legs'' v)"
    by (rule getattr_legs [OF c])
  also have "\<dots> = Animal_legs (Animal_legs_setter a v)"
    by (simp only: setattr_legs [OF assms])
  also have "\<dots> = Inr v"
    by (simp add: Animal_legs_def Animal_legs_setter_def inst_get_def inst_set_def)
  finally have 1: "py_getattr (py_setattr a ''legs'' v) ''legs'' = Inr v" .
  have 3: "Animal_tail (Animal_tail_setter a (PBool b))
            = Inr (PStr (if b then ''has'' else ''does not have''))"
    by (simp add: Animal_tail_def Animal_tail_setter_def inst_get_def inst_set_def)
  have 2: "py_getattr (py_setattr a ''tail'' (PBool b)) ''tail''
              = Inr (PStr (if b then ''has'' else ''does not have''))
          \<and> dict (py_setattr a ''tail'' (PBool b)) ''_Animal__tail'' = Some (PBool b)"
    if s: "cls_of a \<noteq> Snake"
  proof -
    have c': "cls_of (py_setattr a ''tail'' (PBool b)) \<noteq> Snake"
      using s by simp
    have "py_getattr (py_setattr a ''tail'' (PBool b)) ''tail''
            = Animal_tail (py_setattr a ''tail'' (PBool b))"
      by (rule getattr_tail [OF c c'])
    then have "py_getattr (py_setattr a ''tail'' (PBool b)) ''tail''
            = Animal_tail (Animal_tail_setter a (PBool b))"
      by (simp only: setattr_tail [OF assms s])
    moreover have "dict (py_setattr a ''tail'' (PBool b)) ''_Animal__tail'' = Some (PBool b)"
      unfolding setattr_tail [OF assms s]
      by (simp add: Animal_tail_setter_def inst_set_def)
    ultimately show ?thesis using 3 by simp
  qed
  from 1 2 3 show ?thesis by blast
qed

theorem legs_and_tail_round_trip_witness:
  "\<exists>d. new Dog [PStr ''George''] [] = Inr d
     \<and> py_getattr (py_setattr d ''legs'' (PInt 3)) ''legs'' = Inr (PInt 3)
     \<and> py_getattr (py_setattr d ''tail'' (PBool False)) ''tail'' = Inr (PStr ''does not have'')"
proof -
  have "\<exists>d. new Dog [PStr ''George''] [] = Inr d"
    by (simp add: new_def)
  then obtain d where d: "new Dog [PStr ''George''] [] = Inr d" ..
  from new_cls_of [OF d] have c: "cls_of d \<noteq> Bacterium" "cls_of d \<noteq> Snake" by simp_all
  from legs_and_tail_round_trip [OF c(1), of "PInt 3" False] c(2) d
  show ?thesis by auto
qed

lemma getattr_multicellular:
  "py_getattr a ''multicellular'' =
     (case dict a ''multicellular'' of
        Some w \<Rightarrow> Inr w
      | None \<Rightarrow> Inr (PBool (cls_of a \<noteq> Bacterium)))"
  by (cases "cls_of a") (simp_all add: py_getattr_def split: option.splits)

lemma new_no_multicellular_entry:
  "new c args kw = Inr a \<Longrightarrow> dict a ''multicellular'' = None"
  by (cases c)
     (auto dest!: new_Animal new_Dog new_Reptile new_Lizard new_Snake new_Bacterium
           simp: accessor_defs blank_def)

lemma multicellular_not_private: "''multicellular'' \<notin> private_names"
  by (simp add: private_names_def)

lemma assign_all_keeps_multicellular:
  "''multicellular'' \<notin> fst ` set ops \<Longrightarrow>
     dict (assign_all a ops) ''multicellular'' = dict a ''multicellular''"
proof (induction a ops rule: assign_all.induct)
  case (1 self)
  show ?case by simp
next
  case (2 self n v as)
  from "2.prems" have n: "''multicellular'' \<noteq> n" and rest: "''multicellular'' \<notin> fst ` set as"
    by auto
  from "2.IH" [OF rest] py_setattr_dict_other [OF n multicellular_not_private]
  show ?case by simp
qed

text \<open>
  C5. On an instance of Animal, Dog, Reptile, Lizard or Snake \<^verbatim>\<open>multicellular\<close> reads
  True and on a Bacterium it reads False, right after construction and after any
  sequence of assignments to the attributes of the program (\<^verbatim>\<open>legs\<close>, \<^verbatim>\<open>tail\<close>,
  \<^verbatim>\<open>scales\<close>, \<^verbatim>\<open>venom\<close>, \<^verbatim>\<open>name\<close>, \<^verbatim>\<open>eats\<close>; indeed to any name but
  \<^verbatim>\<open>multicellular\<close> itself, for which the program has no mutator). Reading an
  attribute changes nothing: the getters return a value and no new state.
\<close>

theorem multicellular_never_changes:
  assumes "new c args kw = Inr a" and "''multicellular'' \<notin> fst ` set ops"
  shows "py_getattr (assign_all a ops) ''multicellular'' = Inr (PBool (c \<noteq> Bacterium))"
proof -
  have "dict (assign_all a ops) ''multicellular'' = None"
    using assign_all_keeps_multicellular [OF assms(2)] new_no_multicellular_entry [OF assms(1)]
    by simp
  moreover have "cls_of (assign_all a ops) = c"
    using new_cls_of [OF assms(1)] by simp
  ultimately show ?thesis
    by (simp add: getattr_multicellular)
qed

theorem multicellular_never_changes_witness:
  "(\<exists>s. new Snake [] [] = Inr s
      \<and> py_getattr (assign_all s [(''scales'', PBool False), (''eats'', PBool True),
            (''tail'', PBool False), (''legs'', PInt 2), (''venom'', PBool True)])
          ''multicellular'' = Inr (PBool True))
   \<and> (\<exists>b. new Bacterium [] [] = Inr b
      \<and> py_getattr (assign_all b []) ''multicellular'' = Inr (PBool False))"
proof -
  have "\<exists>s. new Snake [] [] = Inr s"
    by (simp add: new_def Snake_init_def inst_get_def inst_set_def)
  then obtain s where s: "new Snake [] [] = Inr s" ..
  have "\<exists>b. new Bacterium [] [] = Inr b"
    by (simp add: new_def)
  then obtain b where b: "new Bacterium [] [] = Inr b" ..
  have ops: "''multicellular'' \<notin> fst ` set [(''scales'', PBool False), (''eats'', PBool True),
            (''tail'', PBool False), (''legs'', PInt 2), (''venom'', PBool True)]"
    by simp
  have nil: "''multicellular'' \<notin> fst ` set ([] :: (string \<times> pyval) list)"
    by simp
  from multicellular_never_changes [OF s ops] multicellular_never_changes [OF b nil] s b
  show ?thesis by simp
qed

text \<open>
  A Lizard and a Reptile with the same instance dictionary: the Lizard is the Reptile
  with its class replaced. Lookups agree, since class Lizard binds nothing.
\<close>

lemma lookup_Lizard: "lookup_mro (mro Lizard) n = lookup_mro (mro Reptile) n"
  by simp

lemma getter_ignores_class:
  assumes "g \<in> {Animal_legs, Animal_tail, Dog_name, Reptile_scales, Snake_venom, Snake_tail}"
  shows "g (r\<lparr>cls_of := k\<rparr>) = g r"
  using assms
  by (auto simp: Animal_legs_def Animal_tail_def Dog_name_def Reptile_scales_def
        Snake_venom_def Snake_tail_def inst_get_def)

lemma setter_ignores_class:
  assumes "f \<in> {Animal_legs_setter, Animal_tail_setter, Dog_name_setter,
                Reptile_scales_setter, Snake_venom_setter, Snake_tail_setter}"
  shows "f (r\<lparr>cls_of := k\<rparr>) v = (f r v)\<lparr>cls_of := k\<rparr>"
  using assms by (auto simp: setter_defs inst_set_def)

lemma getattr_as_Lizard:
  assumes "cls_of r = Reptile"
  shows "py_getattr (r\<lparr>cls_of := Lizard\<rparr>) n = py_getattr r n"
proof (cases "lookup_mro (mro Reptile) n")
  case None
  then show ?thesis
    using assms by (simp add: py_getattr_def inst_get_def lookup_Lizard del: mro.simps)
next
  case (Some p)
  obtain c m where p: "p = (c, m)" by (cases p)
  show ?thesis
  proof (cases m)
    case (Property g f)
    from lookup_Property Some p Property
    have "g \<in> {Animal_legs, Animal_tail, Dog_name, Reptile_scales, Snake_venom, Snake_tail}"
      by blast
    from getter_ignores_class [OF this] Some p Property assms show ?thesis
      by (simp add: py_getattr_def lookup_Lizard del: mro.simps)
  next
    case (ClassAttr w)
    with Some p assms show ?thesis by (simp add: py_getattr_def lookup_Lizard del: mro.simps)
  next
    case (Init ps body)
    with Some p assms show ?thesis by (simp add: py_getattr_def lookup_Lizard del: mro.simps)
  next
    case Method
    with Some p assms show ?thesis by (simp add: py_getattr_def lookup_Lizard del: mro.simps)
  qed
qed

lemma setattr_as_Lizard:
  assumes "cls_of r = Reptile"
  shows "py_setattr (r\<lparr>cls_of := Lizard\<rparr>) n v = (py_setattr r n v)\<lparr>cls_of := Lizard\<rparr>"
proof (cases "lookup_mro (mro Reptile) n")
  case None
  then show ?thesis
    using assms by (simp add: py_setattr_def inst_set_def lookup_Lizard del: mro.simps)
next
  case (Some p)
  obtain c m where p: "p = (c, m)" by (cases p)
  show ?thesis
  proof (cases m)
    case (Property g f)
    from lookup_Property Some p Property
    have "f \<in> {Animal_legs_setter, Animal_tail_setter, Dog_name_setter,
                Reptile_scales_setter, Snake_venom_setter, Snake_tail_setter}"
      by blast
    from setter_ignores_class [OF this] Some p Property assms show ?thesis
      by (simp add: py_setattr_def lookup_Lizard del: mro.simps)
  next
    case (ClassAttr w)
    with Some p assms show ?thesis by (simp add: py_setattr_def inst_set_def lookup_Lizard del: mro.simps)
  next
    case (Init ps body)
    with Some p assms show ?thesis by (simp add: py_setattr_def inst_set_def lookup_Lizard del: mro.simps)
  next
    case Method
    with Some p assms show ?thesis by (simp add: py_setattr_def inst_set_def lookup_Lizard del: mro.simps)
  qed
qed

lemma assign_all_as_Lizard:
  "cls_of r = Reptile \<Longrightarrow>
     assign_all (r\<lparr>cls_of := Lizard\<rparr>) ops = (assign_all r ops)\<lparr>cls_of := Lizard\<rparr>"
proof (induction r ops rule: assign_all.induct)
  case (1 self)
  show ?case by simp
next
  case (2 self n v as)
  from "2.prems" have "cls_of (py_setattr self n v) = Reptile" by simp
  from "2.IH" [OF this] setattr_as_Lizard [OF "2.prems"] show ?case by simp
qed

lemma new_Lizard_as_Reptile:
  "new Lizard args kw = map_sum id (\<lambda>r. r\<lparr>cls_of := Lizard\<rparr>) (new Reptile args kw)"
  by (simp add: new_def accessor_defs blank_def split: sum.splits)

text \<open>
  C6. A Lizard and a Reptile constructed with the same arguments (a leg count of 4, or
  any others) either both fail, with the same error, or both succeed, and then after
  every sequence of attribute assignments every attribute read (\<^verbatim>\<open>legs\<close>, \<^verbatim>\<open>tail\<close>,
  \<^verbatim>\<open>scales\<close>, \<^verbatim>\<open>eats\<close>, \<^verbatim>\<open>multicellular\<close> or any other name) gives the same result
  on both.
\<close>

theorem Lizard_behaves_as_Reptile:
  "((\<exists>e. new Lizard args kw = Inl e \<and> new Reptile args kw = Inl e)
    \<or> (\<exists>l r. new Lizard args kw = Inr l \<and> new Reptile args kw = Inr r
          \<and> (\<forall>ops n. py_getattr (assign_all l ops) n = py_getattr (assign_all r ops) n)))
   \<and> (\<exists>l r. new Lizard [PInt 4] [] = Inr l \<and> new Reptile [PInt 4] [] = Inr r
          \<and> (\<forall>ops n. py_getattr (assign_all l ops) n = py_getattr (assign_all r ops) n))"
proof -
  have same: "py_getattr (assign_all (r\<lparr>cls_of := Lizard\<rparr>) ops) n = py_getattr (assign_all r ops) n"
    if "cls_of r = Reptile" for r ops n
  proof -
    from that have "cls_of (assign_all r ops) = Reptile" by simp
    from getattr_as_Lizard [OF this] assign_all_as_Lizard [OF that] show ?thesis by simp
  qed
  have gen: "(\<exists>e. new Lizard as ks = Inl e \<and> new Reptile as ks = Inl e)
    \<or> (\<exists>l r. new Lizard as ks = Inr l \<and> new Reptile as ks = Inr r
          \<and> (\<forall>ops n. py_getattr (assign_all l ops) n = py_getattr (assign_all r ops) n))"
    for as ks
  proof (cases "new Reptile as ks")
    case (Inl e)
    then show ?thesis by (simp add: new_Lizard_as_Reptile)
  next
    case (Inr r)
    from new_cls_of [OF Inr] have "cls_of r = Reptile" .
    from same [OF this] Inr show ?thesis by (simp add: new_Lizard_as_Reptile)
  qed
  have ok: "\<exists>r. new Reptile [PInt 4] [] = Inr r"
    by (simp add: new_def)
  from gen [of "[PInt 4]" "[]"] ok have
    "\<exists>l r. new Lizard [PInt 4] [] = Inr l \<and> new Reptile [PInt 4] [] = Inr r
          \<and> (\<forall>ops n. py_getattr (assign_all l ops) n = py_getattr (assign_all r ops) n)"
    by auto
  with gen [of args kw] show ?thesis by blast
qed

end
